theory Spec2Isabelle
  imports Complex_Main "HOL-Library.Multiset"
begin

section \<open>Cafe Curator: the cache and gate controller of app.js\<close>

text \<open>
  The embedding follows \<^verbatim>\<open>src/app.js\<close> (the backend-powered variant). Times are the
  readings of \<^verbatim>\<open>Date.now()\<close>: integers, in milliseconds. Coordinates and ratings are
  JavaScript numbers; every finite one is a rational, and the operations used on them
  (\<^verbatim>\<open>toFixed\<close>, subtraction in the comparator) are defined on the exact value, so they are
  \<^typ>\<open>rat\<close> here. The browser's key-value store holds JSON text; the model keeps the
  parsed values, one field per family of keys (\<^verbatim>\<open>cachedLocation\<close>, \<^verbatim>\<open>nearby:...\<close>,
  \<^verbatim>\<open>saved:...\<close>, \<^verbatim>\<open>viewMode\<close>, \<^verbatim>\<open>currentType\<close>), which never collide. An absent key
  is \<open>None\<close>: the code reads it as \<^verbatim>\<open>{}\<close> or \<^verbatim>\<open>[]\<close>. All readings of the clock inside
  one synchronous run of a handler are one value \<open>now\<close>.

  A handler is a function from the state to the new state and the call it leaves pending
  (\<open>action\<close>); what runs when the call answers is a handler of its own
  (\<open>geoSuccess\<close>, \<open>geoError\<close>, \<open>useLocationDone\<close>, \<open>watchdog\<close>), so that any interleaving of
  callbacks can be written as a list of events. Of the document the model keeps what the
  controller reads or what decides its control flow: whether the elements exist, whether
  the Find button is disabled, and what the card container shows. Headings, theme,
  \<^verbatim>\<open>aria-pressed\<close>, alerts and the geometry of the swipe gestures are left out.
\<close>

subsection \<open>Constants\<close>

definition CACHE_MINUTES :: int where
  "CACHE_MINUTES = 10"

definition RESULT_TTL :: int where
  "RESULT_TTL = 5 * 60 * 1000"

definition SEARCH_RADIUS_M :: nat where
  "SEARCH_RADIUS_M = 1500"

definition REQUEST_GAP_MS :: int where
  "REQUEST_GAP_MS = 2500"

subsection \<open>Data\<close>

text \<open>A place as the proxy returns it (server.js, the \<^verbatim>\<open>items\<close> of \<^verbatim>\<open>/api/nearby\<close>).\<close>

record place =
  place_id :: string
  name :: string
  rating :: "rat option"
  vicinity :: string
  photoRef :: "string option"
  photo :: "string option"

text \<open>What \<^verbatim>\<open>displayCards\<close> hands to \<^verbatim>\<open>savePlace\<close>: the rating is the number or \<^verbatim>\<open>'N/A'\<close>.\<close>

datatype saved_rating = Stars rat | NA

record saved_record =
  saved_name :: string
  saved_place_id :: string
  saved_photo :: string
  saved_rating :: saved_rating

text \<open>The stored shapes. A field that a stored object may lack is an option.\<close>

record loc_entry =
  lat :: rat
  lng :: rat
  timestamp :: "int option"

record result_entry =
  ts :: "int option"
  data :: "place list option"

datatype message =
    GeoUnsupported
  | LocationDenied
  | Failed string
  | NoPlaces
  | FetchFailed
  | NoSaved

datatype view = Blank | Cards "place list" | SavedCards "saved_record list" | Empty message

text \<open>The document and the browser: which elements and capabilities exist.\<close>

record env =
  hasFindBtn :: bool
  hasSavedBtn :: bool
  hasCards :: bool
  hasGeolocation :: bool

record state =
  inFlight :: bool
  lastRequestAt :: int
  currentType :: string
  cachedLocation :: "loc_entry option"
  resultCache :: "string \<rightharpoonup> result_entry"
  saved :: "string \<rightharpoonup> saved_record list"
  viewMode :: "string option"
  busyTimer :: "int option"
  findDisabled :: bool
  cards :: view

text \<open>What a handler asks of the outside world before it returns.\<close>

datatype action =
    Idle
  | CallGeolocation int
  | CallNearby string string rat rat

text \<open>The answer of \<^verbatim>\<open>fetch\<close>: a rejection, or a response with its parsed body (if any).\<close>

record body =
  results :: "place list option"
  b_message :: "string option"
  b_error :: "string option"
  b_status :: "string option"

datatype response = Rejected | Response bool nat "body option"

subsection \<open>Number formatting: \<^verbatim>\<open>toFixed(3)\<close>\<close>

definition digit :: "nat \<Rightarrow> char" where
  "digit d = ''0123456789'' ! (d mod 10)"

function digits :: "nat \<Rightarrow> string" where
  "digits n = (if n < 10 then [digit n] else digits (n div 10) @ [digit (n mod 10)])"
  by pat_completeness auto
termination
  by (relation "measure id") auto

declare digits.simps [simp del]

text \<open>
  \<^verbatim>\<open>Number.prototype.toFixed(3)\<close> on a finite number below \<open>10^21\<close>: the sign first, then the
  integer \<open>n\<close> nearest to \<open>1000 * |x|\<close> (the larger of two), its digits padded with zeros
  to four, and the point before the last three. \<open>fixed3\<close> is the formatting of \<open>n\<close>.
\<close>

definition pad4 :: "string \<Rightarrow> string" where
  "pad4 m = (if length m \<le> 3 then replicate (4 - length m) CHR ''0'' @ m else m)"

definition fixed3 :: "bool \<Rightarrow> nat \<Rightarrow> string" where
  "fixed3 neg n =
     (let m = pad4 (digits n); k = length m
      in (if neg then ''-'' else '''') @ take (k - 3) m @ ''.'' @ drop (k - 3) m)"

definition toFixed3 :: "rat \<Rightarrow> string" where
  "toFixed3 x = fixed3 (x < 0) (nat \<lfloor>\<bar>x\<bar> * 1000 + 1 / 2\<rfloor>)"

definition cacheKey :: "rat \<Rightarrow> rat \<Rightarrow> string \<Rightarrow> string" where
  "cacheKey la lo type =
     (let rLat = toFixed3 la; rLng = toFixed3 lo
      in ''nearby:'' @ type @ '':'' @ rLat @ '','' @ rLng)"

text \<open>
  The key derivation in the words of the specification, for comparison:
  \<^verbatim>\<open>key(type, lat, lng) = type + ":" + round3(lat) + "," + round3(lng)\<close>, where
  \<^verbatim>\<open>round3\<close> truncates to three decimal places.
\<close>

definition spec_round3 :: "rat \<Rightarrow> string" where
  "spec_round3 x = fixed3 (x < 0) (nat \<lfloor>\<bar>x\<bar> * 1000\<rfloor>)"

definition spec_key :: "string \<Rightarrow> rat \<Rightarrow> rat \<Rightarrow> string" where
  "spec_key type la lo = type @ '':'' @ spec_round3 la @ '','' @ spec_round3 lo"

subsection \<open>Result cache helpers\<close>

text \<open>\<^verbatim>\<open>t && now - t < ttl\<close> on a field that may be missing: missing and 0 are falsy.\<close>

definition fresh :: "int option \<Rightarrow> int \<Rightarrow> int \<Rightarrow> bool" where
  "fresh t now ttl = (case t of None \<Rightarrow> False | Some v \<Rightarrow> v \<noteq> 0 \<and> now - v < ttl)"

definition getCachedResults :: "string \<Rightarrow> int \<Rightarrow> state \<Rightarrow> place list option" where
  "getCachedResults key now st =
     (let c = (case resultCache st key of None \<Rightarrow> \<lparr>ts = None, data = None\<rparr> | Some e \<Rightarrow> e)
      in if fresh (ts c) now RESULT_TTL then data c else None)"

definition setCachedResults :: "string \<Rightarrow> place list \<Rightarrow> int \<Rightarrow> state \<Rightarrow> state" where
  "setCachedResults key d now st =
     st\<lparr>resultCache := (resultCache st)(key \<mapsto> \<lparr>ts = Some now, data = Some d\<rparr>)\<rparr>"

subsection \<open>The Find button and its watchdog\<close>

text \<open>
  \<^verbatim>\<open>window.__busyTimer\<close> is modelled by the time at which the armed timer is due;
  \<open>None\<close> when no timer is pending.
\<close>

definition setBusy :: "env \<Rightarrow> bool \<Rightarrow> int \<Rightarrow> state \<Rightarrow> state" where
  "setBusy e isBusy now st =
     (if \<not> hasFindBtn e then st
      else if isBusy then st\<lparr>findDisabled := True, busyTimer := Some (now + 8000)\<rparr>
      else st\<lparr>findDisabled := False, busyTimer := None\<rparr>)"

text \<open>The timer's callback; it runs only once the armed timer is due.\<close>

definition watchdog :: "int \<Rightarrow> state \<Rightarrow> state" where
  "watchdog now st =
     (case busyTimer st of
        None \<Rightarrow> st
      | Some due \<Rightarrow>
          if now < due then st
          else st\<lparr>findDisabled := False, inFlight := False, busyTimer := None\<rparr>)"

subsection \<open>Rendering\<close>

definition renderEmpty :: "env \<Rightarrow> message \<Rightarrow> state \<Rightarrow> state" where
  "renderEmpty e msg st = (if hasCards e then st\<lparr>cards := Empty msg\<rparr> else st)"

definition displayCards :: "env \<Rightarrow> place list \<Rightarrow> state \<Rightarrow> state" where
  "displayCards e places st = (if hasCards e then st\<lparr>cards := Cards places\<rparr> else st)"

definition setActive :: "env \<Rightarrow> string \<Rightarrow> state \<Rightarrow> state" where
  "setActive e mode st =
     (if \<not> hasFindBtn e \<or> \<not> hasSavedBtn e then st else st\<lparr>viewMode := Some mode\<rparr>)"

subsection \<open>Sorting by rating\<close>

text \<open>
  \<^verbatim>\<open>results.slice().sort((a,b) => (b.rating||0) - (a.rating||0))\<close>: a stable sort of a copy
  with the comparator; \<open>a\<close> stays before \<open>b\<close> when the comparator is not positive.
\<close>

definition ratingOr0 :: "place \<Rightarrow> rat" where
  "ratingOr0 p = (case rating p of None \<Rightarrow> 0 | Some r \<Rightarrow> r)"

definition compareRating :: "place \<Rightarrow> place \<Rightarrow> rat" where
  "compareRating a b = ratingOr0 b - ratingOr0 a"

fun insertBy :: "('a \<Rightarrow> 'a \<Rightarrow> rat) \<Rightarrow> 'a \<Rightarrow> 'a list \<Rightarrow> 'a list" where
  "insertBy cmp x [] = [x]"
| "insertBy cmp x (y # ys) = (if cmp x y \<le> 0 then x # y # ys else y # insertBy cmp x ys)"

definition sortBy :: "('a \<Rightarrow> 'a \<Rightarrow> rat) \<Rightarrow> 'a list \<Rightarrow> 'a list" where
  "sortBy cmp xs = foldr (insertBy cmp) xs []"

definition sortByRating :: "place list \<Rightarrow> place list" where
  "sortByRating xs = sortBy compareRating xs"

subsection \<open>Search: \<^verbatim>\<open>useLocation\<close>\<close>

text \<open>
  The synchronous part of \<^verbatim>\<open>useLocation\<close>, up to the \<^verbatim>\<open>await fetch\<close>. A cached value is
  used when it is truthy; an array always is.
\<close>

definition gateClosed :: "int \<Rightarrow> state \<Rightarrow> bool" where
  "gateClosed now st = (inFlight st \<or> now - lastRequestAt st < REQUEST_GAP_MS)"

definition useLocation :: "env \<Rightarrow> rat \<Rightarrow> rat \<Rightarrow> int \<Rightarrow> state \<Rightarrow> state \<times> action" where
  "useLocation e la lo now st =
     (let key = cacheKey la lo (currentType st) in
      case getCachedResults key now st of
        Some cached \<Rightarrow> (setBusy e False now (displayCards e cached st), Idle)
      | None \<Rightarrow>
          if gateClosed now st then (st, Idle)
          else (setBusy e True now (st\<lparr>inFlight := True, lastRequestAt := now\<rparr>),
                CallNearby key (currentType st) la lo))"

text \<open>The message of a response that is not ok.\<close>

definition truthyStr :: "string option \<Rightarrow> bool" where
  "truthyStr s = (case s of None \<Rightarrow> False | Some v \<Rightarrow> v \<noteq> [])"

definition failureMsg :: "nat \<Rightarrow> body option \<Rightarrow> string" where
  "failureMsg status json =
     (case json of
        None \<Rightarrow> ''API '' @ digits status
      | Some b \<Rightarrow>
          if truthyStr (b_message b) then the (b_message b)
          else if truthyStr (b_error b) then the (b_error b)
          else if truthyStr (b_status b) then the (b_status b)
          else ''API '' @ digits status)"

text \<open>The \<^verbatim>\<open>finally\<close> block.\<close>

definition finallyBlock :: "env \<Rightarrow> int \<Rightarrow> state \<Rightarrow> state" where
  "finallyBlock e now st = setBusy e False now (st\<lparr>inFlight := False\<rparr>)"

text \<open>
  The rest of \<^verbatim>\<open>useLocation\<close>, run when the fetch settles at time \<open>now\<close>; \<open>key\<close> is the
  key computed before the fetch. A body that is not JSON makes \<^verbatim>\<open>json.results\<close> throw,
  which the \<^verbatim>\<open>catch\<close> reports like a rejected fetch.
\<close>

definition useLocationDone :: "env \<Rightarrow> string \<Rightarrow> response \<Rightarrow> int \<Rightarrow> state \<Rightarrow> state" where
  "useLocationDone e key resp now st =
     (case resp of
        Rejected \<Rightarrow> finallyBlock e now (renderEmpty e FetchFailed st)
      | Response ok status json \<Rightarrow>
          if \<not> ok then finallyBlock e now (renderEmpty e (Failed (failureMsg status json)) st)
          else (case json of
                  None \<Rightarrow> finallyBlock e now (renderEmpty e FetchFailed st)
                | Some b \<Rightarrow>
                    (let rs = (case results b of None \<Rightarrow> [] | Some xs \<Rightarrow> xs) in
                     if rs = [] then finallyBlock e now (renderEmpty e NoPlaces st)
                     else (let sorted = sortByRating rs in
                           finallyBlock e now
                             (displayCards e sorted (setCachedResults key sorted now st))))))"

subsection \<open>Location: \<^verbatim>\<open>getLocation\<close> and the geolocation callbacks\<close>

text \<open>
  \<^verbatim>\<open>getLocation\<close> up to the call of the provider. \<open>CallGeolocation now\<close> carries the
  \<^verbatim>\<open>now\<close> that the success callback closes over.
\<close>

definition getLocation :: "env \<Rightarrow> int \<Rightarrow> state \<Rightarrow> state \<times> action" where
  "getLocation e now st0 =
     (let st = setActive e ''find'' st0 in
      if gateClosed now st then (st, Idle)
      else (case cachedLocation st of
              Some c \<Rightarrow>
                if fresh (timestamp c) now (CACHE_MINUTES * 60 * 1000)
                then useLocation e (lat c) (lng c) now st
                else if \<not> hasGeolocation e then (renderEmpty e GeoUnsupported st, Idle)
                else (st, CallGeolocation now)
            | None \<Rightarrow>
                if \<not> hasGeolocation e then (renderEmpty e GeoUnsupported st, Idle)
                else (st, CallGeolocation now)))"

text \<open>
  The success callback, run at time \<open>t\<close> with the position read; \<open>now\<close> is the value
  captured by the \<^verbatim>\<open>getLocation\<close> that asked.
\<close>

definition geoSuccess :: "env \<Rightarrow> int \<Rightarrow> rat \<Rightarrow> rat \<Rightarrow> int \<Rightarrow> state \<Rightarrow> state \<times> action" where
  "geoSuccess e now la lo t st =
     useLocation e la lo t
       (st\<lparr>cachedLocation := Some \<lparr>lat = la, lng = lo, timestamp = Some now\<rparr>\<rparr>)"

definition geoError :: "env \<Rightarrow> int \<Rightarrow> state \<Rightarrow> state" where
  "geoError e t st = renderEmpty e LocationDenied (setBusy e False t st)"

definition onTypeChange :: "env \<Rightarrow> string \<Rightarrow> int \<Rightarrow> state \<Rightarrow> state \<times> action" where
  "onTypeChange e val now st =
     getLocation e now (setActive e ''find'' (st\<lparr>currentType := val\<rparr>))"

subsection \<open>Saved places\<close>

definition savedKey :: "string \<Rightarrow> string" where
  "savedKey type = ''saved:'' @ type"

definition savedList :: "state \<Rightarrow> string \<Rightarrow> saved_record list" where
  "savedList st key = (case saved st key of None \<Rightarrow> [] | Some xs \<Rightarrow> xs)"

text \<open>\<^verbatim>\<open>savePlace\<close>; the second component tells whether the place was added.\<close>

definition savePlace :: "saved_record \<Rightarrow> state \<Rightarrow> state \<times> bool" where
  "savePlace p st =
     (let key = savedKey (currentType st); xs = savedList st key in
      if find (\<lambda>q. saved_place_id q = saved_place_id p) xs = None
      then (st\<lparr>saved := (saved st)(key \<mapsto> xs @ [p])\<rparr>, True)
      else (st, False))"

text \<open>The \<^verbatim>\<open>swipeleft\<close> handler of a saved card, for the card of the place \<open>pid\<close>.\<close>

definition removeSaved :: "string \<Rightarrow> state \<Rightarrow> state" where
  "removeSaved pid st =
     (let key = savedKey (currentType st);
          arr = filter (\<lambda>q. saved_place_id q \<noteq> pid) (savedList st key)
      in st\<lparr>saved := (saved st)(key \<mapsto> arr)\<rparr>)"

definition showSaved :: "env \<Rightarrow> state \<Rightarrow> state" where
  "showSaved e st0 =
     (let st = setActive e ''saved'' st0 in
      if \<not> hasCards e then st
      else (let xs = savedList st (savedKey (currentType st)) in
            if xs = [] then st\<lparr>cards := Empty NoSaved\<rparr> else st\<lparr>cards := SavedCards xs\<rparr>))"

subsection \<open>The page at load\<close>

text \<open>
  The script's initial bindings, on an empty store: \<^verbatim>\<open>inFlight = false\<close>,
  \<^verbatim>\<open>lastRequestAt = 0\<close>, \<^verbatim>\<open>currentType = 'cafe'\<close>. \<open>fullPage\<close> is a document with every
  element the script looks up, in a browser with geolocation.
\<close>

definition initialState :: state where
  "initialState =
     \<lparr>inFlight = False, lastRequestAt = 0, currentType = ''cafe'', cachedLocation = None,
      resultCache = Map.empty, saved = Map.empty, viewMode = None, busyTimer = None,
      findDisabled = False, cards = Blank\<rparr>"

definition fullPage :: env where
  "fullPage = \<lparr>hasFindBtn = True, hasSavedBtn = True, hasCards = True, hasGeolocation = True\<rparr>"

subsection \<open>Runs\<close>

text \<open>
  Everything that can happen to the page, each event with the clock reading at which its
  handler runs.
\<close>

datatype event =
    Find
  | TypeChange string
  | GeoSuccess int rat rat
  | GeoError
  | FetchDone string response
  | Watchdog
  | Save saved_record
  | Remove string
  | ShowSaved

fun step :: "env \<Rightarrow> int \<times> event \<Rightarrow> state \<Rightarrow> state \<times> action" where
  "step e (t, Find) st = getLocation e t st"
| "step e (t, TypeChange val) st = onTypeChange e val t st"
| "step e (t, GeoSuccess now la lo) st = geoSuccess e now la lo t st"
| "step e (t, GeoError) st = (geoError e t st, Idle)"
| "step e (t, FetchDone key resp) st = (useLocationDone e key resp t st, Idle)"
| "step e (t, Watchdog) st = (watchdog t st, Idle)"
| "step e (t, Save p) st = (fst (savePlace p st), Idle)"
| "step e (t, Remove pid) st = (removeSaved pid st, Idle)"
| "step e (t, ShowSaved) st = (showSaved e st, Idle)"

text \<open>The clock readings at which a run calls the Nearby Search Proxy, in order.\<close>

definition isCall :: "action \<Rightarrow> bool" where
  "isCall a = (case a of CallNearby key type la lo \<Rightarrow> True | _ \<Rightarrow> False)"

fun upstreamCalls :: "env \<Rightarrow> state \<Rightarrow> (int \<times> event) list \<Rightarrow> int list" where
  "upstreamCalls e st [] = []"
| "upstreamCalls e st (ev # evs) =
     (if isCall (snd (step e ev st)) then [fst ev] else [])
       @ upstreamCalls e (fst (step e ev st)) evs"

fun run :: "env \<Rightarrow> state \<Rightarrow> (int \<times> event) list \<Rightarrow> state" where
  "run e st [] = st"
| "run e st (ev # evs) = run e (fst (step e ev st)) evs"

subsection \<open>Events of the user and the armed watchdog\<close>


definition armed :: "int \<Rightarrow> int \<Rightarrow> (string \<rightharpoonup> result_entry) \<Rightarrow> state \<Rightarrow> bool" where
  "armed t due rc s =
     (inFlight s \<and> busyTimer s = Some due \<and> lastRequestAt s = t \<and> resultCache s = rc)"


subsection \<open>Example data\<close>

text \<open>
  Three places with the ratings 4.5, none and 3.0, the same places as \<^verbatim>\<open>displayCards\<close>
  passes them to \<^verbatim>\<open>savePlace\<close>, and the state of a page loaded on a store that holds a
  location read at 1700000000000.
\<close>

definition cafeA :: place where
  "cafeA = \<lparr>place_id = ''p1'', name = ''Blue Door'', rating = Some (9 / 2),
            vicinity = ''1 Main St'', photoRef = None, photo = None\<rparr>"

definition cafeB :: place where
  "cafeB = \<lparr>place_id = ''p2'', name = ''Corner'', rating = None,
            vicinity = ''2 Main St'', photoRef = None, photo = None\<rparr>"

definition cafeC :: place where
  "cafeC = \<lparr>place_id = ''p3'', name = ''Annex'', rating = Some 3,
            vicinity = ''3 Main St'', photoRef = None, photo = None\<rparr>"

definition savedA :: saved_record where
  "savedA = \<lparr>saved_name = ''Blue Door'', saved_place_id = ''p1'',
             saved_photo = ''https://via.placeholder.com/520x300?text=No+Image'',
             saved_rating = Stars (9 / 2)\<rparr>"

definition savedB :: saved_record where
  "savedB = \<lparr>saved_name = ''Corner'', saved_place_id = ''p2'',
             saved_photo = ''https://via.placeholder.com/520x300?text=No+Image'',
             saved_rating = NA\<rparr>"

definition reloaded :: state where
  "reloaded = initialState\<lparr>cachedLocation :=
     Some \<lparr>lat = 40, lng = - 74, timestamp = Some 1700000000000\<rparr>\<rparr>"

definition okBody :: "place list \<Rightarrow> body" where
  "okBody rs = \<lparr>results = Some rs, b_message = None, b_error = None, b_status = None\<rparr>"

text \<open>The invariant of the saved lists: within one category no id occurs twice.\<close>

definition uniqueIds :: "state \<Rightarrow> bool" where
  "uniqueIds st = (\<forall>k. distinct (map saved_place_id (savedList st k)))"

section \<open>Frame lemmas\<close>

lemma gate_setBusy [simp]:
  "inFlight (setBusy e b now st) = inFlight st"
  "lastRequestAt (setBusy e b now st) = lastRequestAt st"
  by (simp_all add: setBusy_def)

lemma gate_renderEmpty [simp]:
  "inFlight (renderEmpty e m st) = inFlight st"
  "lastRequestAt (renderEmpty e m st) = lastRequestAt st"
  by (simp_all add: renderEmpty_def)

lemma gate_displayCards [simp]:
  "inFlight (displayCards e m st) = inFlight st"
  "lastRequestAt (displayCards e m st) = lastRequestAt st"
  by (simp_all add: displayCards_def)

lemma gate_setActive [simp]:
  "inFlight (setActive e m st) = inFlight st"
  "lastRequestAt (setActive e m st) = lastRequestAt st"
  by (simp_all add: setActive_def)

lemma gate_setCachedResults [simp]:
  "inFlight (setCachedResults k d now st) = inFlight st"
  "lastRequestAt (setCachedResults k d now st) = lastRequestAt st"
  by (simp_all add: setCachedResults_def)

lemma gate_finallyBlock [simp]:
  "inFlight (finallyBlock e now st) = False"
  "lastRequestAt (finallyBlock e now st) = lastRequestAt st"
  by (simp_all add: finallyBlock_def)

lemma gate_useLocationDone [simp]:
  "inFlight (useLocationDone e k r now st) = False"
  "lastRequestAt (useLocationDone e k r now st) = lastRequestAt st"
  by (simp_all add: useLocationDone_def Let_def split: response.splits option.splits)

lemma lastRequestAt_watchdog [simp]: "lastRequestAt (watchdog now st) = lastRequestAt st"
  by (simp add: watchdog_def split: option.splits)

lemma lastRequestAt_showSaved [simp]: "lastRequestAt (showSaved e st) = lastRequestAt st"
  by (simp add: showSaved_def Let_def)

lemma lastRequestAt_savePlace [simp]: "lastRequestAt (fst (savePlace p st)) = lastRequestAt st"
  by (simp add: savePlace_def Let_def)

lemma lastRequestAt_removeSaved [simp]: "lastRequestAt (removeSaved p st) = lastRequestAt st"
  by (simp add: removeSaved_def Let_def)

lemma gateClosed_setActive [simp]: "gateClosed now (setActive e m st) = gateClosed now st"
  by (simp add: gateClosed_def)

lemma gateClosed_cachedLocation [simp]:
  "gateClosed t (st\<lparr>cachedLocation := c\<rparr>) = gateClosed t st"
  by (simp add: gateClosed_def)

lemma gateClosed_currentType [simp]:
  "gateClosed t (st\<lparr>currentType := c\<rparr>) = gateClosed t st"
  by (simp add: gateClosed_def)

lemma cachedLocation_setActive [simp]: "cachedLocation (setActive e m st) = cachedLocation st"
  by (simp add: setActive_def)

lemma cachedLocation_useLocation [simp]:
  "cachedLocation (fst (useLocation e la lo now st)) = cachedLocation st"
  by (simp add: useLocation_def Let_def setBusy_def displayCards_def split: option.splits)

lemma resultCache_setBusy [simp]: "resultCache (setBusy e b now st) = resultCache st"
  by (simp add: setBusy_def)

lemma resultCache_renderEmpty [simp]: "resultCache (renderEmpty e m st) = resultCache st"
  by (simp add: renderEmpty_def)

lemma resultCache_displayCards [simp]: "resultCache (displayCards e m st) = resultCache st"
  by (simp add: displayCards_def)

lemma resultCache_finallyBlock [simp]: "resultCache (finallyBlock e now st) = resultCache st"
  by (simp add: finallyBlock_def)

lemma cards_finallyBlock [simp]: "cards (finallyBlock e now st) = cards st"
  by (simp add: finallyBlock_def setBusy_def)

lemma saved_setBusy [simp]: "saved (setBusy e b now st) = saved st"
  by (simp add: setBusy_def)

lemma saved_renderEmpty [simp]: "saved (renderEmpty e m st) = saved st"
  by (simp add: renderEmpty_def)

lemma saved_displayCards [simp]: "saved (displayCards e m st) = saved st"
  by (simp add: displayCards_def)

lemma saved_setActive [simp]: "saved (setActive e m st) = saved st"
  by (simp add: setActive_def)

lemma saved_finallyBlock [simp]: "saved (finallyBlock e now st) = saved st"
  by (simp add: finallyBlock_def)

lemma saved_setCachedResults [simp]: "saved (setCachedResults k d now st) = saved st"
  by (simp add: setCachedResults_def)

lemma saved_useLocation [simp]: "saved (fst (useLocation e la lo now st)) = saved st"
  by (simp add: useLocation_def Let_def split: option.splits)

lemma saved_getLocation [simp]: "saved (fst (getLocation e now st)) = saved st"
  by (simp add: getLocation_def Let_def split: option.splits)

lemma saved_useLocationDone [simp]: "saved (useLocationDone e k r now st) = saved st"
  by (simp add: useLocationDone_def Let_def split: response.splits option.splits)

lemma saved_watchdog [simp]: "saved (watchdog now st) = saved st"
  by (simp add: watchdog_def split: option.splits)

lemma saved_showSaved [simp]: "saved (showSaved e st) = saved st"
  by (simp add: showSaved_def Let_def)


section \<open>Freshness of cache entries\<close>

lemma fresh_falsy: "t = None \<or> t = Some 0 \<Longrightarrow> \<not> fresh t now ttl"
  by (auto simp add: fresh_def)

lemma getCachedResults_falsy:
  "resultCache st key = Some c \<Longrightarrow> ts c = None \<or> ts c = Some 0 \<Longrightarrow>
   getCachedResults key now st = None"
  by (simp add: getCachedResults_def fresh_falsy)

lemma getLocation_falsy:
  "cachedLocation st = Some l \<Longrightarrow> timestamp l = None \<or> timestamp l = Some 0 \<Longrightarrow>
   getLocation e now st =
     (if gateClosed now st then (setActive e ''find'' st, Idle)
      else if hasGeolocation e then (setActive e ''find'' st, CallGeolocation now)
      else (renderEmpty e GeoUnsupported (setActive e ''find'' st), Idle))"
  by (simp add: getLocation_def Let_def fresh_falsy)

lemma useLocation_no_geo: "snd (useLocation e la lo now st) \<noteq> CallGeolocation n"
  by (simp add: useLocation_def Let_def split: option.splits)

lemma getLocation_geo_now: "snd (getLocation e now st) = CallGeolocation n \<Longrightarrow> n = now"
  by (auto simp add: getLocation_def Let_def useLocation_no_geo split: option.splits if_splits)

section \<open>The gate\<close>

lemma useLocation_dropped:
  "gateClosed now st \<Longrightarrow> getCachedResults (cacheKey la lo (currentType st)) now st = None \<Longrightarrow>
   useLocation e la lo now st = (st, Idle)"
  by (simp add: useLocation_def Let_def)

lemma getLocation_dropped:
  "gateClosed now st \<Longrightarrow> getLocation e now st = (setActive e ''find'' st, Idle)"
  by (simp add: getLocation_def Let_def)

lemma useLocation_open:
  "\<not> gateClosed t st \<Longrightarrow> getCachedResults (cacheKey la lo (currentType st)) t st = None \<Longrightarrow>
   isCall (snd (useLocation e la lo t st))"
  by (simp add: useLocation_def Let_def isCall_def)

lemma useLocation_issues:
  "isCall (snd (useLocation e la lo t st)) \<Longrightarrow>
   fst (useLocation e la lo t st) = setBusy e True t (st\<lparr>inFlight := True, lastRequestAt := t\<rparr>)"
  by (simp add: useLocation_def Let_def isCall_def split: option.splits if_splits)

lemma useLocation_gate:
  "lastRequestAt (fst (useLocation e la lo t st)) =
     (if isCall (snd (useLocation e la lo t st)) then t else lastRequestAt st)"
  "isCall (snd (useLocation e la lo t st)) \<Longrightarrow> \<not> gateClosed t st"
  by (simp_all add: useLocation_def Let_def isCall_def split: option.splits if_splits)

lemma getLocation_gate:
  "lastRequestAt (fst (getLocation e t st)) =
     (if isCall (snd (getLocation e t st)) then t else lastRequestAt st)"
  "isCall (snd (getLocation e t st)) \<Longrightarrow> \<not> gateClosed t st"
  using useLocation_gate [of e _ _ t "setActive e ''find'' st"]
  by (auto simp add: getLocation_def Let_def isCall_def split: option.splits if_splits)

lemma step_gate:
  "lastRequestAt (fst (step e (t, ev) st)) =
     (if isCall (snd (step e (t, ev) st)) then t else lastRequestAt st)"
  by (cases ev) (simp_all add: getLocation_gate useLocation_gate onTypeChange_def geoSuccess_def
        geoError_def isCall_def)

lemma step_call_open:
  assumes "isCall (snd (step e (t, ev) st))"
  shows "\<not> gateClosed t st"
proof (cases ev)
  case Find
  with assms show ?thesis using getLocation_gate(2) [of e t st] by simp
next
  case (TypeChange x)
  with assms show ?thesis
    using getLocation_gate(2) [of e t "setActive e ''find'' (st\<lparr>currentType := x\<rparr>)"]
    by (simp add: onTypeChange_def)
next
  case (GeoSuccess n la lo)
  with assms show ?thesis
    using useLocation_gate(2)
      [of e la lo t "st\<lparr>cachedLocation := Some \<lparr>lat = la, lng = lo, timestamp = Some n\<rparr>\<rparr>"]
    by (simp add: geoSuccess_def)
qed (use assms in \<open>simp_all add: isCall_def\<close>)

lemma step_call_gap:
  "isCall (snd (step e (t, ev) st)) \<Longrightarrow> REQUEST_GAP_MS \<le> t - lastRequestAt st"
  using step_call_open [of e t ev st] by (simp add: gateClosed_def)

text \<open>Every upstream call of a run is at least the gap after the request time it started from.\<close>

lemma upstreamCalls_after:
  "c \<in> set (upstreamCalls e st evs) \<Longrightarrow> REQUEST_GAP_MS \<le> c - lastRequestAt st"
proof (induction evs arbitrary: st)
  case Nil
  then show ?case by simp
next
  case (Cons x evs)
  obtain t ev where x: "x = (t, ev)" by (cases x)
  let ?st' = "fst (step e (t, ev) st)"
  show ?case
  proof (cases "isCall (snd (step e (t, ev) st))")
    case True
    then have g: "REQUEST_GAP_MS \<le> t - lastRequestAt st" and l: "lastRequestAt ?st' = t"
      by (simp_all add: step_gate step_call_gap)
    from Cons.prems x True have "c = t \<or> c \<in> set (upstreamCalls e ?st' evs)"
      by simp
    then show ?thesis
    proof
      assume "c = t" with g show ?thesis by simp
    next
      assume "c \<in> set (upstreamCalls e ?st' evs)"
      then have "REQUEST_GAP_MS \<le> c - lastRequestAt ?st'" by (rule Cons.IH)
      with g l show ?thesis by (simp add: REQUEST_GAP_MS_def)
    qed
  next
    case False
    with Cons.prems x have "c \<in> set (upstreamCalls e ?st' evs)"
      by simp
    then have "REQUEST_GAP_MS \<le> c - lastRequestAt ?st'" by (rule Cons.IH)
    with False show ?thesis by (simp add: step_gate)
  qed
qed

lemma upstreamCalls_spaced:
  "sorted_wrt (\<lambda>a b. REQUEST_GAP_MS \<le> b - a) (upstreamCalls e st evs)"
proof (induction evs arbitrary: st)
  case Nil
  then show ?case by simp
next
  case (Cons x evs)
  obtain t ev where x: "x = (t, ev)" by (cases x)
  let ?st' = "fst (step e (t, ev) st)"
  show ?case
  proof (cases "isCall (snd (step e (t, ev) st))")
    case True
    then have "lastRequestAt ?st' = t" by (simp add: step_gate)
    then have "\<forall>c \<in> set (upstreamCalls e ?st' evs). REQUEST_GAP_MS \<le> c - t"
      using upstreamCalls_after [of _ e ?st' evs] by auto
    with True x Cons.IH [of ?st'] show ?thesis by simp
  next
    case False
    with x Cons.IH [of ?st'] show ?thesis by simp
  qed
qed

section \<open>The watchdog\<close>






lemma armed_setActive [simp]: "armed t due rc (setActive e m s) = armed t due rc s"
  by (simp add: armed_def setActive_def)

lemma armed_currentType [simp]: "armed t due rc (s\<lparr>currentType := v\<rparr>) = armed t due rc s"
  by (simp add: armed_def)







section \<open>Sorting\<close>

lemma mset_insertBy: "mset (insertBy cmp x ys) = add_mset x (mset ys)"
  by (induction ys) simp_all

lemma mset_sortBy: "mset (sortBy cmp xs) = mset xs"
  by (induction xs) (simp_all add: sortBy_def mset_insertBy)

lemma set_insertBy: "set (insertBy cmp x ys) = insert x (set ys)"
  by (induction ys) auto

lemma sorted_insertBy:
  "sorted_wrt (\<lambda>a b. ratingOr0 b \<le> ratingOr0 a) ys \<Longrightarrow>
   sorted_wrt (\<lambda>a b. ratingOr0 b \<le> ratingOr0 a) (insertBy compareRating x ys)"
proof (induction ys)
  case Nil
  then show ?case by simp
next
  case (Cons y ys)
  show ?case
  proof (cases "compareRating x y \<le> 0")
    case True
    then have "ratingOr0 y \<le> ratingOr0 x" by (simp add: compareRating_def)
    with Cons.prems True show ?thesis by fastforce
  next
    case False
    then have "ratingOr0 x \<le> ratingOr0 y" by (simp add: compareRating_def)
    with Cons False show ?thesis by (auto simp add: set_insertBy)
  qed
qed

lemma sorted_sortByRating: "sorted_wrt (\<lambda>a b. ratingOr0 b \<le> ratingOr0 a) (sortByRating xs)"
  by (induction xs) (simp_all add: sortByRating_def sortBy_def sorted_insertBy)

lemma mset_sortByRating: "mset (sortByRating xs) = mset xs"
  by (simp add: sortByRating_def mset_sortBy)

section \<open>Completion of a search\<close>

lemma useLocationDone_nonempty:
  "results b = Some rs \<Longrightarrow> rs \<noteq> [] \<Longrightarrow>
   useLocationDone e key (Response True status (Some b)) now st =
     finallyBlock e now
       (displayCards e (sortByRating rs) (setCachedResults key (sortByRating rs) now st))"
  by (simp add: useLocationDone_def Let_def)

lemma useLocationDone_empty:
  "results b = Some [] \<or> results b = None \<Longrightarrow>
   useLocationDone e key (Response True status (Some b)) now st =
     finallyBlock e now (renderEmpty e NoPlaces st)"
  by (auto simp add: useLocationDone_def Let_def)

section \<open>Saved lists\<close>

lemma savedList_update:
  "savedList (st\<lparr>saved := (saved st)(k \<mapsto> xs)\<rparr>) k' = (if k' = k then xs else savedList st k')"
  by (simp add: savedList_def)

lemma find_id_None:
  "(find (\<lambda>q. saved_place_id q = i) xs = None) = (i \<notin> saved_place_id ` set xs)"
  by (auto simp add: find_None_iff)

lemma savePlace_present:
  "saved_place_id p \<in> saved_place_id ` set (savedList st (savedKey (currentType st))) \<Longrightarrow>
   savePlace p st = (st, False)"
  by (simp add: savePlace_def Let_def find_id_None)

lemma savedList_savePlace:
  "savedList (fst (savePlace p st)) k =
     (if k = savedKey (currentType st)
         \<and> saved_place_id p \<notin> saved_place_id ` set (savedList st k)
      then savedList st k @ [p] else savedList st k)"
  by (simp add: savePlace_def Let_def find_id_None savedList_update)

lemma savedList_removeSaved:
  "savedList (removeSaved pid st) k =
     (if k = savedKey (currentType st)
      then filter (\<lambda>q. saved_place_id q \<noteq> pid) (savedList st k) else savedList st k)"
  by (simp add: removeSaved_def Let_def savedList_update)

lemma removeSaved_absent:
  assumes "saved st (savedKey (currentType st)) = Some xs" and "pid \<notin> saved_place_id ` set xs"
  shows "removeSaved pid st = st"
proof -
  from assms(2) have "filter (\<lambda>q. saved_place_id q \<noteq> pid) xs = xs"
    by (auto simp add: filter_id_conv)
  with assms(1) show ?thesis
    by (simp add: removeSaved_def Let_def savedList_def map_upd_triv)
qed

lemma uniqueIds_savePlace: "uniqueIds st \<Longrightarrow> uniqueIds (fst (savePlace p st))"
  by (auto simp add: uniqueIds_def savedList_savePlace)

lemma uniqueIds_removeSaved: "uniqueIds st \<Longrightarrow> uniqueIds (removeSaved pid st)"
  by (simp add: uniqueIds_def savedList_removeSaved distinct_map_filter)

lemma uniqueIds_saved_eq: "uniqueIds st \<Longrightarrow> saved st' = saved st \<Longrightarrow> uniqueIds st'"
  by (simp add: uniqueIds_def savedList_def)

lemma uniqueIds_step: "uniqueIds st \<Longrightarrow> uniqueIds (fst (step e ev st))"
proof (cases ev)
  case (Pair t x)
  assume u: "uniqueIds st"
  show ?thesis
  proof (cases x)
    case Find
    with Pair show ?thesis by (simp add: uniqueIds_saved_eq [OF u])
  next
    case (TypeChange v)
    with Pair show ?thesis by (simp add: uniqueIds_saved_eq [OF u] onTypeChange_def)
  next
    case (GeoSuccess n la lo)
    with Pair show ?thesis by (simp add: uniqueIds_saved_eq [OF u] geoSuccess_def)
  next
    case GeoError
    with Pair show ?thesis by (simp add: uniqueIds_saved_eq [OF u] geoError_def)
  next
    case (FetchDone k r)
    with Pair show ?thesis by (simp add: uniqueIds_saved_eq [OF u])
  next
    case Watchdog
    with Pair show ?thesis by (simp add: uniqueIds_saved_eq [OF u])
  next
    case (Save p)
    with Pair u show ?thesis by (simp add: uniqueIds_savePlace)
  next
    case (Remove pid)
    with Pair u show ?thesis by (simp add: uniqueIds_removeSaved)
  next
    case ShowSaved
    with Pair show ?thesis by (simp add: uniqueIds_saved_eq [OF u])
  qed
qed

lemma uniqueIds_run: "uniqueIds st \<Longrightarrow> uniqueIds (run e st evs)"
  by (induction evs arbitrary: st) (simp_all add: uniqueIds_step)

section \<open>Formatting on the examples\<close>

lemma digits_examples:
  "digits 40000 = ''40000''" "digits 40001 = ''40001''" "digits 74000 = ''74000''"
  by (simp_all add: digits.simps digit_def)

lemma fixed3_examples:
  "fixed3 False 40000 = ''40.000''" "fixed3 False 40001 = ''40.001''"
  "fixed3 True 74000 = ''-74.000''"
  by (simp_all add: fixed3_def pad4_def digits_examples)

lemma toFixed3_I: "\<lfloor>\<bar>x\<bar> * 1000 + 1 / 2\<rfloor> = int n \<Longrightarrow> toFixed3 x = fixed3 (x < 0) n"
  by (simp add: toFixed3_def)

lemma spec_round3_I: "\<lfloor>\<bar>x\<bar> * 1000\<rfloor> = int n \<Longrightarrow> spec_round3 x = fixed3 (x < 0) n"
  by (simp add: spec_round3_def)

text \<open>
  \<open>163841 / 4096\<close> and \<open>40961 / 1024\<close> are the doubles \<open>40 + 2^-12\<close> and \<open>40 + 2^-10\<close>;
  the others are the decimals 40.0001, 40.0004, -73.9999 and -73.9996.
\<close>

lemma toFixed3_examples:
  "toFixed3 (163841 / 4096) = ''40.000''"
  "toFixed3 (40961 / 1024) = ''40.001''"
  "toFixed3 (- 74) = ''-74.000''"
  "toFixed3 (400001 / 10000) = ''40.000''"
  "toFixed3 (100001 / 2500) = ''40.000''"
  "toFixed3 (- (739999 / 10000)) = ''-74.000''"
  "toFixed3 (- (184999 / 2500)) = ''-74.000''"
  by (simp_all add: toFixed3_I [of _ 40000] toFixed3_I [of _ 40001] toFixed3_I [of _ 74000]
      floor_eq_iff fixed3_examples)

lemma spec_round3_examples:
  "spec_round3 (163841 / 4096) = ''40.000''"
  "spec_round3 (40961 / 1024) = ''40.000''"
  "spec_round3 (- 74) = ''-74.000''"
  by (simp_all add: spec_round3_I [of _ 40000] spec_round3_I [of _ 74000]
      floor_eq_iff fixed3_examples)


section \<open>A page without the Find button\<close>

lemma setBusy_no_button [simp]: "\<not> hasFindBtn e \<Longrightarrow> setBusy e b now st = st"
  by (simp add: setBusy_def)

lemma busyTimer_renderEmpty [simp]: "busyTimer (renderEmpty e m st) = busyTimer st"
  by (simp add: renderEmpty_def)

lemma busyTimer_displayCards [simp]: "busyTimer (displayCards e m st) = busyTimer st"
  by (simp add: displayCards_def)

lemma busyTimer_setActive [simp]: "busyTimer (setActive e m st) = busyTimer st"
  by (simp add: setActive_def)

lemma busyTimer_setCachedResults [simp]: "busyTimer (setCachedResults k d now st) = busyTimer st"
  by (simp add: setCachedResults_def)






text \<open>There the watchdog never clears a request: \<open>inFlight\<close> falls only when a fetch settles.\<close>

lemma no_button_watchdog:
  "busyTimer st = None \<Longrightarrow> watchdog now st = st"
  by (simp add: watchdog_def)

section \<open>The claims\<close>

subsection \<open>C1: time to live of the two caches\<close>

text \<open>
  C1, as the code has it. The age of an entry is counted from its stamp \<open>T\<close>: the entry
  is read back unchanged at \<open>T'\<close> when \<open>T' - T\<close> is below the time to live, and is treated
  as absent from \<open>T' - T = TTL\<close> on. For the result cache (5 minutes) the stamp is the time
  at which \<^verbatim>\<open>setCachedResults\<close> wrote the entry, looked up by \<^verbatim>\<open>getCachedResults\<close> in any
  later state that still holds it. For the location cache (10 minutes) the stamp is the
  \<^verbatim>\<open>now\<close> of the \<^verbatim>\<open>getLocation\<close> that asked for the position, whenever the success
  callback wrote the entry (at \<open>t\<close> below); \<^verbatim>\<open>getLocation\<close>, once past its gate, continues
  with the cached coordinates and does not call the provider while the entry is fresh, and
  asks the provider (or reports that there is none) as it does without an entry otherwise.
  \<open>T\<close> is a reading of the clock other than the epoch itself, which the code takes for a
  missing stamp.
\<close>

theorem cache_ttl:
  assumes "T \<noteq> 0"
  shows "(resultCache st2 key = resultCache (setCachedResults key d T st) key \<longrightarrow>
            getCachedResults key T' st2 = (if T' - T < 5 * 60 * 1000 then Some d else None))
       \<and> (cachedLocation st3 = cachedLocation (fst (geoSuccess e T la lo t st'))
            \<and> \<not> gateClosed T' st3 \<longrightarrow>
            (if T' - T < 10 * 60 * 1000
             then getLocation e T' st3 = useLocation e la lo T' (setActive e ''find'' st3)
                  \<and> (\<forall>n. snd (getLocation e T' st3) \<noteq> CallGeolocation n)
             else getLocation e T' st3 =
                    (if hasGeolocation e then (setActive e ''find'' st3, CallGeolocation T')
                     else (renderEmpty e GeoUnsupported (setActive e ''find'' st3), Idle))))"
proof (intro conjI impI)
  assume "resultCache st2 key = resultCache (setCachedResults key d T st) key"
  with assms show "getCachedResults key T' st2 = (if T' - T < 5 * 60 * 1000 then Some d else None)"
    by (simp add: getCachedResults_def setCachedResults_def fresh_def RESULT_TTL_def)
next
  assume a: "cachedLocation st3 = cachedLocation (fst (geoSuccess e T la lo t st'))
    \<and> \<not> gateClosed T' st3"
  then have c: "cachedLocation st3 = Some \<lparr>lat = la, lng = lo, timestamp = Some T\<rparr>"
    by (simp add: geoSuccess_def)
  from a have g: "\<not> gateClosed T' st3" by simp
  show "if T' - T < 10 * 60 * 1000
     then getLocation e T' st3 = useLocation e la lo T' (setActive e ''find'' st3)
          \<and> (\<forall>n. snd (getLocation e T' st3) \<noteq> CallGeolocation n)
     else getLocation e T' st3 =
            (if hasGeolocation e then (setActive e ''find'' st3, CallGeolocation T')
             else (renderEmpty e GeoUnsupported (setActive e ''find'' st3), Idle))"
    using assms c g
    by (simp add: getLocation_def Let_def fresh_def CACHE_MINUTES_def useLocation_no_geo)
qed

theorem cache_ttl_witness:
  "(1700000000000 :: int) \<noteq> 0
   \<and> getCachedResults ''k'' 1700000299999 (setCachedResults ''k'' [cafeA] 1700000000000 initialState)
       = Some [cafeA]
   \<and> getCachedResults ''k'' 1700000300000 (setCachedResults ''k'' [cafeA] 1700000000000 initialState)
       = None
   \<and> cachedLocation reloaded
       = cachedLocation (fst (geoSuccess fullPage 1700000000000 40 (- 74) 1700000001000 initialState))
   \<and> \<not> gateClosed 1700000599999 reloaded
   \<and> getLocation fullPage 1700000599999 reloaded
       = useLocation fullPage 40 (- 74) 1700000599999 (setActive fullPage ''find'' reloaded)
   \<and> getLocation fullPage 1700000600000 reloaded
       = (setActive fullPage ''find'' reloaded, CallGeolocation 1700000600000)"
  using cache_ttl [where T = 1700000000000 and T' = 1700000299999 and key = "''k''"
      and d = "[cafeA]" and st = initialState
      and ?st2.0 = "setCachedResults ''k'' [cafeA] 1700000000000 initialState"]
    cache_ttl [where T = 1700000000000 and T' = 1700000300000 and key = "''k''"
      and d = "[cafeA]" and st = initialState
      and ?st2.0 = "setCachedResults ''k'' [cafeA] 1700000000000 initialState"]
    cache_ttl [where T = 1700000000000 and T' = 1700000599999 and ?st3.0 = reloaded
      and e = fullPage and la = 40 and lo = "- 74" and t = 1700000001000 and st' = initialState]
    cache_ttl [where T = 1700000000000 and T' = 1700000600000 and ?st3.0 = reloaded
      and e = fullPage and la = 40 and lo = "- 74" and t = 1700000001000 and st' = initialState]
  by (simp add: reloaded_def initialState_def gateClosed_def REQUEST_GAP_MS_def geoSuccess_def
      fullPage_def)

text \<open>
  C1 as stated fails for the location entry. A position asked for at 1700000000000 is
  delivered, and the entry written, at 1700000005000; the search it starts fails. At
  1700000602000, 597 seconds after the entry was written, \<^verbatim>\<open>getLocation\<close> is past its
  gate, takes the entry for stale and calls the provider.
\<close>

theorem location_written_at_counterexample:
  "cachedLocation (run fullPage initialState
       [(1700000000000, Find), (1700000005000, GeoSuccess 1700000000000 40 (- 74)),
        (1700000005400, FetchDone ''nearby:cafe:40.000,-74.000'' Rejected)])
     = Some \<lparr>lat = 40, lng = - 74, timestamp = Some 1700000000000\<rparr>
   \<and> (1700000602000 :: int) - 1700000005000 < 10 * 60 * 1000
   \<and> \<not> gateClosed 1700000602000 (run fullPage initialState
       [(1700000000000, Find), (1700000005000, GeoSuccess 1700000000000 40 (- 74)),
        (1700000005400, FetchDone ''nearby:cafe:40.000,-74.000'' Rejected)])
   \<and> snd (getLocation fullPage 1700000602000 (run fullPage initialState
       [(1700000000000, Find), (1700000005000, GeoSuccess 1700000000000 40 (- 74)),
        (1700000005400, FetchDone ''nearby:cafe:40.000,-74.000'' Rejected)]))
     = CallGeolocation 1700000602000"
  by (simp add: getLocation_def geoSuccess_def useLocation_def useLocationDone_def
      finallyBlock_def getCachedResults_def fresh_def gateClosed_def REQUEST_GAP_MS_def
      CACHE_MINUTES_def initialState_def fullPage_def setBusy_def setActive_def renderEmpty_def
      Let_def)

subsection \<open>C2: the gate\<close>

text \<open>
  C2. In every run, from any state and for any events, two calls of the Nearby Search
  Proxy are never less than 2.5 seconds apart on the clock: of two searches issued within
  2.5 seconds that the cache does not answer, at most one reaches the proxy. After a
  search that called the proxy at \<open>t1\<close>, a search at \<open>t2\<close> with \<open>t2 - t1 < 2500\<close> that the
  cache does not answer returns the state as it was and asks for nothing: it is dropped,
  and nothing is left behind that could run it later. The gate is closed exactly when
  \<open>inFlight\<close> is set or less than 2500 ms have passed since \<open>lastRequestAt\<close>; a closed
  gate drops \<^verbatim>\<open>useLocation\<close> on a cache miss, and drops \<^verbatim>\<open>getLocation\<close> after it has
  marked the Find view active.
\<close>

theorem gate_drops_requests:
  "sorted_wrt (\<lambda>a b. 2500 \<le> b - a) (upstreamCalls e st evs)
   \<and> (isCall (snd (useLocation e la lo t1 st))
        \<and> lastRequestAt st2 = lastRequestAt (fst (useLocation e la lo t1 st))
        \<and> t2 - t1 < 2500
        \<and> getCachedResults (cacheKey la' lo' (currentType st2)) t2 st2 = None \<longrightarrow>
      useLocation e la' lo' t2 st2 = (st2, Idle))
   \<and> gateClosed now st = (inFlight st \<or> now - lastRequestAt st < 2500)
   \<and> (gateClosed now st \<and> getCachedResults (cacheKey la lo (currentType st)) now st = None \<longrightarrow>
        useLocation e la lo now st = (st, Idle))
   \<and> (gateClosed now st \<longrightarrow> getLocation e now st = (setActive e ''find'' st, Idle))"
proof (intro conjI impI)
  show "sorted_wrt (\<lambda>a b. 2500 \<le> b - a) (upstreamCalls e st evs)"
    using upstreamCalls_spaced [of e st evs] by (simp add: REQUEST_GAP_MS_def)
  show "gateClosed now st = (inFlight st \<or> now - lastRequestAt st < 2500)"
    by (simp add: gateClosed_def REQUEST_GAP_MS_def)
next
  assume a: "isCall (snd (useLocation e la lo t1 st))
        \<and> lastRequestAt st2 = lastRequestAt (fst (useLocation e la lo t1 st))
        \<and> t2 - t1 < 2500
        \<and> getCachedResults (cacheKey la' lo' (currentType st2)) t2 st2 = None"
  then have "lastRequestAt st2 = t1" by (simp add: useLocation_gate)
  with a have "gateClosed t2 st2" by (simp add: gateClosed_def REQUEST_GAP_MS_def)
  with a show "useLocation e la' lo' t2 st2 = (st2, Idle)" by (simp add: useLocation_dropped)
next
  assume "gateClosed now st \<and> getCachedResults (cacheKey la lo (currentType st)) now st = None"
  then show "useLocation e la lo now st = (st, Idle)" by (simp add: useLocation_dropped)
next
  assume "gateClosed now st"
  then show "getLocation e now st = (setActive e ''find'' st, Idle)" by (rule getLocation_dropped)
qed

theorem gate_drops_requests_witness:
  "isCall (snd (useLocation fullPage 40 (- 74) 1700000010000 initialState))
   \<and> (1700000011000 :: int) - 1700000010000 < 2500
   \<and> getCachedResults (cacheKey 40 (- 74)
         (currentType (fst (useLocation fullPage 40 (- 74) 1700000010000 initialState))))
       1700000011000 (fst (useLocation fullPage 40 (- 74) 1700000010000 initialState)) = None
   \<and> useLocation fullPage 40 (- 74) 1700000011000
         (fst (useLocation fullPage 40 (- 74) 1700000010000 initialState))
       = (fst (useLocation fullPage 40 (- 74) 1700000010000 initialState), Idle)
   \<and> gateClosed 1700000011000 (fst (useLocation fullPage 40 (- 74) 1700000010000 initialState))
   \<and> getLocation fullPage 1700000011000
         (fst (useLocation fullPage 40 (- 74) 1700000010000 initialState))
       = (setActive fullPage ''find''
            (fst (useLocation fullPage 40 (- 74) 1700000010000 initialState)), Idle)
   \<and> upstreamCalls fullPage reloaded [(1700000010000, Find), (1700000011000, Find)]
       = [1700000010000]"
proof -
  let ?s1 = "fst (useLocation fullPage 40 (- 74) 1700000010000 initialState)"
  have c: "isCall (snd (useLocation fullPage 40 (- 74) 1700000010000 initialState))"
    by (simp add: useLocation_open gateClosed_def REQUEST_GAP_MS_def getCachedResults_def
        fresh_def initialState_def)
  have s1: "?s1 = setBusy fullPage True 1700000010000
      (initialState\<lparr>inFlight := True, lastRequestAt := 1700000010000\<rparr>)"
    using c by (rule useLocation_issues)
  have m: "getCachedResults (cacheKey 40 (- 74) (currentType ?s1)) 1700000011000 ?s1 = None"
    unfolding s1 by (simp add: getCachedResults_def fresh_def initialState_def setBusy_def)
  have g: "gateClosed 1700000011000 ?s1"
    unfolding s1 by (simp add: gateClosed_def)
  have u: "upstreamCalls fullPage reloaded [(1700000010000, Find), (1700000011000, Find)]
       = [1700000010000]"
    by (simp add: reloaded_def initialState_def fullPage_def getLocation_def useLocation_def
        getCachedResults_def gateClosed_def REQUEST_GAP_MS_def CACHE_MINUTES_def setBusy_def
        setActive_def fresh_def isCall_def Let_def)
  have a: "(1700000011000 :: int) - 1700000010000 < 2500" by simp
  have d: "useLocation fullPage 40 (- 74) 1700000011000 ?s1 = (?s1, Idle)"
    by (rule gate_drops_requests [where e = fullPage and la = 40 and lo = "- 74"
          and ?t1.0 = 1700000010000 and st = initialState and ?t2.0 = 1700000011000,
          THEN conjunct2, THEN conjunct1, THEN mp])
      (intro conjI c refl a m)
  have f: "getLocation fullPage 1700000011000 ?s1 = (setActive fullPage ''find'' ?s1, Idle)"
    by (rule gate_drops_requests [where e = fullPage and now = 1700000011000 and st = ?s1,
          THEN conjunct2, THEN conjunct2, THEN conjunct2, THEN conjunct2, THEN mp, OF g])
  from c a m d g f u show ?thesis by blast
qed

subsection \<open>C3: a cache hit bypasses the gate\<close>

text \<open>
  C3. A search (\<^verbatim>\<open>useLocation\<close>) whose key holds an entry younger than 5 minutes shows
  the cached data and returns at once, whatever the gate says: nothing is assumed about
  \<open>inFlight\<close> or \<open>lastRequestAt\<close>, so the search succeeds also with \<open>inFlight\<close> set or less
  than 2.5 seconds after \<open>lastRequestAt\<close>. It calls nothing, and leaves \<open>inFlight\<close> and
  \<open>lastRequestAt\<close> as they were.
\<close>

theorem cache_hit_bypasses_gate:
  assumes "resultCache st (cacheKey la lo (currentType st)) = Some c"
      and "ts c = Some T" and "T \<noteq> 0" and "now - T < 5 * 60 * 1000" and "data c = Some d"
  shows "useLocation e la lo now st = (setBusy e False now (displayCards e d st), Idle)
       \<and> inFlight (fst (useLocation e la lo now st)) = inFlight st
       \<and> lastRequestAt (fst (useLocation e la lo now st)) = lastRequestAt st
       \<and> (hasCards e \<longrightarrow> cards (fst (useLocation e la lo now st)) = Cards d)"
  using assms
  by (simp add: useLocation_def getCachedResults_def fresh_def RESULT_TTL_def Let_def
      setBusy_def displayCards_def)

theorem cache_hit_bypasses_gate_witness:
  "gateClosed 1700000060000
     (setCachedResults (cacheKey 40 (- 74) ''cafe'') [cafeA] 1700000000000
        (initialState\<lparr>inFlight := True, lastRequestAt := 1700000059000\<rparr>))
   \<and> useLocation fullPage 40 (- 74) 1700000060000
        (setCachedResults (cacheKey 40 (- 74) ''cafe'') [cafeA] 1700000000000
           (initialState\<lparr>inFlight := True, lastRequestAt := 1700000059000\<rparr>))
      = (setBusy fullPage False 1700000060000
           (displayCards fullPage [cafeA]
              (setCachedResults (cacheKey 40 (- 74) ''cafe'') [cafeA] 1700000000000
                 (initialState\<lparr>inFlight := True, lastRequestAt := 1700000059000\<rparr>))), Idle)
   \<and> inFlight (fst (useLocation fullPage 40 (- 74) 1700000060000
        (setCachedResults (cacheKey 40 (- 74) ''cafe'') [cafeA] 1700000000000
           (initialState\<lparr>inFlight := True, lastRequestAt := 1700000059000\<rparr>))))
   \<and> lastRequestAt (fst (useLocation fullPage 40 (- 74) 1700000060000
        (setCachedResults (cacheKey 40 (- 74) ''cafe'') [cafeA] 1700000000000
           (initialState\<lparr>inFlight := True, lastRequestAt := 1700000059000\<rparr>)))) = 1700000059000
   \<and> cards (fst (useLocation fullPage 40 (- 74) 1700000060000
        (setCachedResults (cacheKey 40 (- 74) ''cafe'') [cafeA] 1700000000000
           (initialState\<lparr>inFlight := True, lastRequestAt := 1700000059000\<rparr>)))) = Cards [cafeA]"
proof -
  let ?st = "setCachedResults (cacheKey 40 (- 74) ''cafe'') [cafeA] 1700000000000
        (initialState\<lparr>inFlight := True, lastRequestAt := 1700000059000\<rparr>)"
  have k: "resultCache ?st (cacheKey 40 (- 74) (currentType ?st))
      = Some \<lparr>ts = Some 1700000000000, data = Some [cafeA]\<rparr>"
    by (simp add: setCachedResults_def initialState_def)
  have g: "gateClosed 1700000060000 ?st"
    by (simp add: gateClosed_def initialState_def)
  have i: "inFlight ?st" "lastRequestAt ?st = 1700000059000" "hasCards fullPage"
    by (simp_all add: initialState_def fullPage_def)
  have th: "useLocation fullPage 40 (- 74) 1700000060000 ?st
        = (setBusy fullPage False 1700000060000 (displayCards fullPage [cafeA] ?st), Idle)
      \<and> inFlight (fst (useLocation fullPage 40 (- 74) 1700000060000 ?st)) = inFlight ?st
      \<and> lastRequestAt (fst (useLocation fullPage 40 (- 74) 1700000060000 ?st)) = lastRequestAt ?st
      \<and> (hasCards fullPage \<longrightarrow>
          cards (fst (useLocation fullPage 40 (- 74) 1700000060000 ?st)) = Cards [cafeA])"
    by (rule cache_hit_bypasses_gate [OF k, where T = 1700000000000]) simp_all
  from th i have "inFlight (fst (useLocation fullPage 40 (- 74) 1700000060000 ?st))"
    and "lastRequestAt (fst (useLocation fullPage 40 (- 74) 1700000060000 ?st)) = 1700000059000"
    and "cards (fst (useLocation fullPage 40 (- 74) 1700000060000 ?st)) = Cards [cafeA]"
    by metis+
  with th g show ?thesis by blast
qed

subsection \<open>C4: the key of the result cache\<close>

text \<open>
  C4, as the code has it. The key is \<^verbatim>\<open>"nearby:" + type + ":" + lat.toFixed(3) + "," +
  lng.toFixed(3)\<close>, where \<^verbatim>\<open>toFixed(3)\<close> renders the thousandth nearest to the coordinate
  (a tie goes away from zero), with the sign of the coordinate. Two pairs of coordinates
  with the same renderings have the same key for every type; this is so whenever each
  coordinate has the sign and the nearest thousandth of its counterpart.
\<close>

theorem cache_key_is_rounded:
  "cacheKey la lo type = ''nearby:'' @ type @ '':'' @ toFixed3 la @ '','' @ toFixed3 lo
   \<and> toFixed3 la = fixed3 (la < 0) (nat \<lfloor>\<bar>la\<bar> * 1000 + 1 / 2\<rfloor>)
   \<and> (toFixed3 la = toFixed3 la' \<and> toFixed3 lo = toFixed3 lo' \<longrightarrow>
        cacheKey la lo type = cacheKey la' lo' type)
   \<and> ((la < 0) = (la' < 0) \<and> \<lfloor>\<bar>la\<bar> * 1000 + 1 / 2\<rfloor> = \<lfloor>\<bar>la'\<bar> * 1000 + 1 / 2\<rfloor>
        \<and> (lo < 0) = (lo' < 0) \<and> \<lfloor>\<bar>lo\<bar> * 1000 + 1 / 2\<rfloor> = \<lfloor>\<bar>lo'\<bar> * 1000 + 1 / 2\<rfloor> \<longrightarrow>
        cacheKey la lo type = cacheKey la' lo' type)"
  by (simp add: cacheKey_def toFixed3_def)

text \<open>The scenario of the specification: 40.0001, -73.9999 and 40.0004, -73.9996.\<close>

theorem cache_key_is_rounded_witness:
  "toFixed3 (400001 / 10000) = toFixed3 (100001 / 2500)
   \<and> toFixed3 (- (739999 / 10000)) = toFixed3 (- (184999 / 2500))
   \<and> cacheKey (400001 / 10000) (- (739999 / 10000)) ''cafe''
       = cacheKey (100001 / 2500) (- (184999 / 2500)) ''cafe''
   \<and> cacheKey (400001 / 10000) (- (739999 / 10000)) ''cafe'' = ''nearby:cafe:40.000,-74.000''"
proof -
  have h: "toFixed3 (400001 / 10000) = toFixed3 (100001 / 2500)
      \<and> toFixed3 (- (739999 / 10000)) = toFixed3 (- (184999 / 2500))"
    by (simp add: toFixed3_examples)
  have k: "cacheKey (400001 / 10000) (- (739999 / 10000)) ''cafe''
      = cacheKey (100001 / 2500) (- (184999 / 2500)) ''cafe''"
    using cache_key_is_rounded
      [of "400001 / 10000" "- (739999 / 10000)" "''cafe''" "100001 / 2500" "- (184999 / 2500)"] h
    by blast
  have v: "cacheKey (400001 / 10000) (- (739999 / 10000)) ''cafe'' = ''nearby:cafe:40.000,-74.000''"
    by (simp add: cacheKey_def toFixed3_examples)
  from h k v show ?thesis by blast
qed

text \<open>
  C4 as stated fails. For the latitude \<open>40 + 2^-10\<close> (40.0009765625) and the longitude -74
  the code's key is \<^verbatim>\<open>nearby:cafe:40.001,-74.000\<close>, while the stated formula with
  truncation gives \<^verbatim>\<open>cafe:40.000,-74.000\<close>; and \<open>40 + 2^-12\<close> (40.000244140625) has the
  same truncation as \<open>40 + 2^-10\<close> but another key.
\<close>

theorem cache_key_truncates_counterexample:
  "cacheKey (40961 / 1024) (- 74) ''cafe'' = ''nearby:cafe:40.001,-74.000''
   \<and> spec_key ''cafe'' (40961 / 1024) (- 74) = ''cafe:40.000,-74.000''
   \<and> cacheKey (40961 / 1024) (- 74) ''cafe'' \<noteq> spec_key ''cafe'' (40961 / 1024) (- 74)
   \<and> spec_round3 (163841 / 4096) = spec_round3 (40961 / 1024)
   \<and> cacheKey (163841 / 4096) (- 74) ''cafe'' \<noteq> cacheKey (40961 / 1024) (- 74) ''cafe''"
  by (simp add: cacheKey_def spec_key_def toFixed3_examples spec_round3_examples)

subsection \<open>C5: stored results are sorted by rating\<close>

text \<open>
  C5. When the proxy answers a search with a list that is not empty, the entry stored for
  the key holds that list sorted by rating, highest first, a missing rating counting as 0,
  and the same list is shown: it is a rearrangement of the answer in which no place has a
  higher rating (or 0) than one before it. The ratings 4.5, none, 3.0 are stored in the
  order 4.5, 3.0, none.
\<close>

theorem stored_results_sorted:
  assumes "results b = Some rs" and "rs \<noteq> []"
  shows "resultCache (useLocationDone e key (Response True status (Some b)) now st) key =
           Some \<lparr>ts = Some now, data = Some (sortByRating rs)\<rparr>
       \<and> (hasCards e \<longrightarrow>
            cards (useLocationDone e key (Response True status (Some b)) now st)
              = Cards (sortByRating rs))
       \<and> sorted_wrt (\<lambda>p q. ratingOr0 q \<le> ratingOr0 p) (sortByRating rs)
       \<and> mset (sortByRating rs) = mset rs
       \<and> map rating (sortByRating
            [p1\<lparr>rating := Some (9 / 2)\<rparr>, p2\<lparr>rating := None\<rparr>, p3\<lparr>rating := Some 3\<rparr>])
           = [Some (9 / 2), Some 3, None]"
proof (intro conjI)
  show "resultCache (useLocationDone e key (Response True status (Some b)) now st) key =
           Some \<lparr>ts = Some now, data = Some (sortByRating rs)\<rparr>"
    using assms by (simp add: useLocationDone_nonempty setCachedResults_def)
  show "hasCards e \<longrightarrow>
            cards (useLocationDone e key (Response True status (Some b)) now st)
              = Cards (sortByRating rs)"
    using assms by (simp add: useLocationDone_nonempty displayCards_def)
  show "sorted_wrt (\<lambda>p q. ratingOr0 q \<le> ratingOr0 p) (sortByRating rs)"
    by (rule sorted_sortByRating)
  show "mset (sortByRating rs) = mset rs"
    by (rule mset_sortByRating)
  show "map rating (sortByRating
            [p1\<lparr>rating := Some (9 / 2)\<rparr>, p2\<lparr>rating := None\<rparr>, p3\<lparr>rating := Some 3\<rparr>])
           = [Some (9 / 2), Some 3, None]"
    by (simp add: sortByRating_def sortBy_def compareRating_def ratingOr0_def)
qed

theorem stored_results_sorted_witness:
  "results (okBody [cafeA, cafeB, cafeC]) = Some [cafeA, cafeB, cafeC]
   \<and> [cafeA, cafeB, cafeC] \<noteq> []
   \<and> sortByRating [cafeA, cafeB, cafeC] = [cafeA, cafeC, cafeB]
   \<and> resultCache
        (useLocationDone fullPage ''k'' (Response True 200 (Some (okBody [cafeA, cafeB, cafeC])))
           1700000000500 initialState) ''k''
      = Some \<lparr>ts = Some 1700000000500, data = Some [cafeA, cafeC, cafeB]\<rparr>
   \<and> cards
        (useLocationDone fullPage ''k'' (Response True 200 (Some (okBody [cafeA, cafeB, cafeC])))
           1700000000500 initialState)
      = Cards [cafeA, cafeC, cafeB]"
proof -
  have r: "results (okBody [cafeA, cafeB, cafeC]) = Some [cafeA, cafeB, cafeC]"
    by (simp add: okBody_def)
  have n: "[cafeA, cafeB, cafeC] \<noteq> []" by simp
  have s: "sortByRating [cafeA, cafeB, cafeC] = [cafeA, cafeC, cafeB]"
    by (simp add: sortByRating_def sortBy_def compareRating_def ratingOr0_def
        cafeA_def cafeB_def cafeC_def)
  have h: "hasCards fullPage" by (simp add: fullPage_def)
  from stored_results_sorted [OF r n, of fullPage "''k''" 200 1700000000500 initialState] s h r n
  show ?thesis by metis
qed

subsection \<open>C6: the stamp of the location entry\<close>

text \<open>
  C6, as the code has it. The location entry that a geolocation success callback writes is
  stamped with the \<^verbatim>\<open>now\<close> that \<^verbatim>\<open>getLocation\<close> read before it called the provider: the
  time of the request, whenever the callback delivers the position (at \<open>t\<close> below).
\<close>

theorem location_stamp_is_request_time:
  "(snd (getLocation e now st) = CallGeolocation n \<longrightarrow> n = now)
   \<and> cachedLocation (fst (geoSuccess e now la lo t st')) =
       Some \<lparr>lat = la, lng = lo, timestamp = Some now\<rparr>"
  using getLocation_geo_now [of e now st n] by (simp add: geoSuccess_def)

theorem location_stamp_is_request_time_witness:
  "snd (getLocation fullPage 1700000000000 initialState) = CallGeolocation 1700000000000
   \<and> cachedLocation
        (fst (geoSuccess fullPage 1700000000000 (163841 / 4096) (- 74) 1700000003000 initialState))
      = Some \<lparr>lat = 163841 / 4096, lng = - 74, timestamp = Some 1700000000000\<rparr>"
proof -
  have g: "snd (getLocation fullPage 1700000000000 initialState) = CallGeolocation 1700000000000"
    by (simp add: getLocation_def Let_def initialState_def fullPage_def gateClosed_def
        REQUEST_GAP_MS_def setActive_def)
  from location_stamp_is_request_time [of fullPage 1700000000000 initialState 1700000000000
      "163841 / 4096" "- 74" 1700000003000 initialState] g
  show ?thesis by blast
qed

text \<open>
  C6 as stated fails: a position asked for at 1700000000000 and delivered five seconds
  later is stored with the stamp 1700000000000, not 1700000005000.
\<close>

theorem location_stamp_is_read_time_counterexample:
  "snd (getLocation fullPage 1700000000000 initialState) = CallGeolocation 1700000000000
   \<and> map_option timestamp
        (cachedLocation (fst (geoSuccess fullPage 1700000000000 40 (- 74) 1700000005000
           (fst (getLocation fullPage 1700000000000 initialState)))))
      = Some (Some 1700000000000)
   \<and> map_option timestamp
        (cachedLocation (fst (geoSuccess fullPage 1700000000000 40 (- 74) 1700000005000
           (fst (getLocation fullPage 1700000000000 initialState)))))
      \<noteq> Some (Some 1700000005000)"
  by (simp add: getLocation_def geoSuccess_def Let_def initialState_def fullPage_def
      gateClosed_def REQUEST_GAP_MS_def setActive_def)

subsection \<open>C7: what a successful search and a successful read overwrite\<close>

text \<open>
  C7, as the code has it. A successful search whose list is not empty overwrites the
  result entry of its key with the sorted list and the time of the answer. A successful
  search whose list is empty leaves the result cache as it was and shows the "no places"
  message. Every successful geolocation read overwrites the location entry.
\<close>

theorem nonempty_search_overwrites:
  "(results b = Some rs \<and> rs \<noteq> [] \<longrightarrow>
      resultCache (useLocationDone e key (Response True status (Some b)) now st) =
        (resultCache st)(key \<mapsto> \<lparr>ts = Some now, data = Some (sortByRating rs)\<rparr>))
   \<and> (results b = Some [] \<longrightarrow>
      resultCache (useLocationDone e key (Response True status (Some b)) now st) = resultCache st
      \<and> (hasCards e \<longrightarrow>
           cards (useLocationDone e key (Response True status (Some b)) now st) = Empty NoPlaces))
   \<and> cachedLocation (fst (geoSuccess e n la lo t st)) =
        Some \<lparr>lat = la, lng = lo, timestamp = Some n\<rparr>"
  by (simp add: useLocationDone_nonempty useLocationDone_empty setCachedResults_def
      renderEmpty_def geoSuccess_def)

theorem nonempty_search_overwrites_witness:
  "results (okBody [cafeC]) = Some [cafeC] \<and> [cafeC] \<noteq> []
   \<and> resultCache
        (useLocationDone fullPage ''k'' (Response True 200 (Some (okBody [cafeC]))) 1700000400000
           (setCachedResults ''k'' [cafeA] 1700000000000 initialState)) ''k''
      = Some \<lparr>ts = Some 1700000400000, data = Some [cafeC]\<rparr>
   \<and> results (okBody []) = Some []
   \<and> cards
        (useLocationDone fullPage ''k'' (Response True 200 (Some (okBody []))) 1700000400000
           (setCachedResults ''k'' [cafeA] 1700000000000 initialState))
      = Empty NoPlaces"
proof -
  have r: "results (okBody [cafeC]) = Some [cafeC] \<and> [cafeC] \<noteq> []"
    and z: "results (okBody []) = Some []" and h: "hasCards fullPage"
    by (simp_all add: okBody_def fullPage_def)
  have s: "sortByRating [cafeC] = [cafeC]"
    by (simp add: sortByRating_def sortBy_def)
  from nonempty_search_overwrites [of "okBody [cafeC]" "[cafeC]" fullPage "''k''" 200 1700000400000
      "setCachedResults ''k'' [cafeA] 1700000000000 initialState"] r s
  have a: "resultCache
        (useLocationDone fullPage ''k'' (Response True 200 (Some (okBody [cafeC]))) 1700000400000
           (setCachedResults ''k'' [cafeA] 1700000000000 initialState)) ''k''
      = Some \<lparr>ts = Some 1700000400000, data = Some [cafeC]\<rparr>"
    by simp
  from nonempty_search_overwrites [of "okBody []" _ fullPage "''k''" 200 1700000400000
      "setCachedResults ''k'' [cafeA] 1700000000000 initialState"] z h
  have b: "cards
        (useLocationDone fullPage ''k'' (Response True 200 (Some (okBody []))) 1700000400000
           (setCachedResults ''k'' [cafeA] 1700000000000 initialState))
      = Empty NoPlaces"
    by blast
  from r a z b show ?thesis by blast
qed

text \<open>
  C7 as stated fails: a successful search that finds nothing, five minutes and more after
  an entry was stored, leaves the old entry in place instead of overwriting it.
\<close>

theorem empty_search_overwrites_counterexample:
  "resultCache
     (useLocationDone fullPage ''k'' (Response True 200 (Some (okBody []))) 1700000400000
        (setCachedResults ''k'' [cafeA] 1700000000000 initialState)) ''k''
   = Some \<lparr>ts = Some 1700000000000, data = Some [cafeA]\<rparr>"
  by (simp add: useLocationDone_empty okBody_def setCachedResults_def)

subsection \<open>C8: the watchdog\<close>




text \<open>
  Remark. On the full page the timer is one for the button, and the error callback of a
  geolocation request clears it with \<^verbatim>\<open>setBusy(false)\<close> whatever it guards. In this run two
  location requests are pending; the first succeeds and starts a search at 1700000001000,
  the second fails at 1700000002000: no timer is left, and at 1700000009000 the search
  is still marked in flight. The theorem of C8 says nothing about such runs.
\<close>

lemma watchdog_cancelled_by_geolocation_error:
  "upstreamCalls fullPage initialState
       [(1700000000000, Find), (1700000000100, Find),
        (1700000001000, GeoSuccess 1700000000000 40 (- 74)),
        (1700000002000, GeoError),
        (1700000009000, Watchdog)] = [1700000001000]
   \<and> busyTimer (run fullPage initialState
       [(1700000000000, Find), (1700000000100, Find),
        (1700000001000, GeoSuccess 1700000000000 40 (- 74)),
        (1700000002000, GeoError)]) = None
   \<and> inFlight (run fullPage initialState
       [(1700000000000, Find), (1700000000100, Find),
        (1700000001000, GeoSuccess 1700000000000 40 (- 74)),
        (1700000002000, GeoError),
        (1700000009000, Watchdog)])"
  by (simp add: getLocation_def geoSuccess_def geoError_def useLocation_def getCachedResults_def
      fresh_def gateClosed_def REQUEST_GAP_MS_def initialState_def fullPage_def setBusy_def
      setActive_def renderEmpty_def watchdog_def isCall_def Let_def)

subsection \<open>C9: saved places\<close>

text \<open>
  C9. Saving a place whose id is already in the list of the current category changes
  nothing (and a place whose id is not there is appended). Hence, in every run, if no list
  holds an id twice before, none does after. Removing an id leaves the list of the current
  category filtered of that id; for an id that is not in the list every list reads as
  before, and the store itself is unchanged when it holds the category's key.
\<close>

theorem saved_ids_stay_unique:
  "(saved_place_id p \<in> saved_place_id ` set (savedList st (savedKey (currentType st))) \<longrightarrow>
      savePlace p st = (st, False))
   \<and> (saved_place_id p \<notin> saved_place_id ` set (savedList st (savedKey (currentType st))) \<longrightarrow>
      savedList (fst (savePlace p st)) (savedKey (currentType st))
        = savedList st (savedKey (currentType st)) @ [p])
   \<and> (uniqueIds st \<longrightarrow> uniqueIds (run e st evs))
   \<and> savedList (removeSaved pid st) (savedKey (currentType st))
        = filter (\<lambda>q. saved_place_id q \<noteq> pid) (savedList st (savedKey (currentType st)))
   \<and> (pid \<notin> saved_place_id ` set (savedList st (savedKey (currentType st))) \<longrightarrow>
        (\<forall>k. savedList (removeSaved pid st) k = savedList st k)
        \<and> (saved st (savedKey (currentType st)) \<noteq> None \<longrightarrow> removeSaved pid st = st))"
proof (intro conjI impI allI)
  assume "saved_place_id p \<in> saved_place_id ` set (savedList st (savedKey (currentType st)))"
  then show "savePlace p st = (st, False)" by (rule savePlace_present)
next
  assume "saved_place_id p \<notin> saved_place_id ` set (savedList st (savedKey (currentType st)))"
  then show "savedList (fst (savePlace p st)) (savedKey (currentType st))
        = savedList st (savedKey (currentType st)) @ [p]"
    by (simp add: savedList_savePlace)
next
  assume "uniqueIds st"
  then show "uniqueIds (run e st evs)" by (rule uniqueIds_run)
next
  show "savedList (removeSaved pid st) (savedKey (currentType st))
        = filter (\<lambda>q. saved_place_id q \<noteq> pid) (savedList st (savedKey (currentType st)))"
    by (simp add: savedList_removeSaved)
next
  fix k
  assume "pid \<notin> saved_place_id ` set (savedList st (savedKey (currentType st)))"
  then have "filter (\<lambda>q. saved_place_id q \<noteq> pid) (savedList st (savedKey (currentType st)))
      = savedList st (savedKey (currentType st))"
    by (auto simp add: filter_id_conv)
  then show "savedList (removeSaved pid st) k = savedList st k"
    by (simp add: savedList_removeSaved)
next
  assume a: "pid \<notin> saved_place_id ` set (savedList st (savedKey (currentType st)))"
    and b: "saved st (savedKey (currentType st)) \<noteq> None"
  from b obtain xs where x: "saved st (savedKey (currentType st)) = Some xs" by blast
  with a have "pid \<notin> saved_place_id ` set xs" by (simp add: savedList_def)
  with x show "removeSaved pid st = st" by (rule removeSaved_absent)
qed

theorem saved_ids_stay_unique_witness:
  "saved_place_id savedA
     \<in> saved_place_id ` set (savedList (fst (savePlace savedA initialState))
          (savedKey (currentType (fst (savePlace savedA initialState)))))
   \<and> savePlace savedA (fst (savePlace savedA initialState))
       = (fst (savePlace savedA initialState), False)
   \<and> uniqueIds initialState
   \<and> uniqueIds (run fullPage initialState
        [(1700000000000, Save savedA), (1700000001000, Save savedB),
         (1700000002000, Save savedA), (1700000003000, Remove ''p2'')])
   \<and> ''p2'' \<notin> saved_place_id ` set (savedList (fst (savePlace savedA initialState))
          (savedKey (currentType (fst (savePlace savedA initialState)))))
   \<and> saved (fst (savePlace savedA initialState))
        (savedKey (currentType (fst (savePlace savedA initialState)))) \<noteq> None
   \<and> removeSaved ''p2'' (fst (savePlace savedA initialState)) = fst (savePlace savedA initialState)"
proof -
  let ?s = "fst (savePlace savedA initialState)"
  have s: "?s = initialState\<lparr>saved := [''saved:cafe'' \<mapsto> [savedA]]\<rparr>"
    by (simp add: savePlace_def Let_def savedList_def savedKey_def initialState_def)
  have k: "savedKey (currentType ?s) = ''saved:cafe''"
    unfolding s by (simp add: savedKey_def initialState_def)
  have l: "savedList ?s ''saved:cafe'' = [savedA]" "saved ?s ''saved:cafe'' \<noteq> None"
    unfolding s by (simp_all add: savedList_def)
  have m: "saved_place_id savedA \<in> saved_place_id ` set (savedList ?s (savedKey (currentType ?s)))"
    and n: "''p2'' \<notin> saved_place_id ` set (savedList ?s (savedKey (currentType ?s)))"
    unfolding k l by (simp_all add: savedA_def)
  have o: "saved ?s (savedKey (currentType ?s)) \<noteq> None"
    unfolding k by (rule l(2))
  have u: "uniqueIds initialState"
    by (simp add: uniqueIds_def savedList_def initialState_def)
  note th = saved_ids_stay_unique [where st = ?s and p = savedA and pid = "''p2''"]
  note tr = saved_ids_stay_unique [where st = initialState and e = fullPage and evs =
        "[(1700000000000, Save savedA), (1700000001000, Save savedB),
         (1700000002000, Save savedA), (1700000003000, Remove ''p2'')]"]
  from th m have a: "savePlace savedA ?s = (?s, False)" by blast
  from tr u have b: "uniqueIds (run fullPage initialState
        [(1700000000000, Save savedA), (1700000001000, Save savedB),
         (1700000002000, Save savedA), (1700000003000, Remove ''p2'')])" by blast
  from th n o have c: "removeSaved ''p2'' ?s = ?s" by blast
  from m a u b n o c show ?thesis by blast
qed

subsection \<open>C10: a missing or zero stamp\<close>

text \<open>
  C10. A stored entry whose stamp is missing or 0 is treated as absent, whatever else it
  holds: \<^verbatim>\<open>getCachedResults\<close> returns nothing, \<^verbatim>\<open>useLocation\<close> goes on to the gate as on
  a miss, and \<^verbatim>\<open>getLocation\<close> does what it does without a cached location (the coordinates
  of the entry are not used).
\<close>

theorem falsy_stamp_is_absent:
  "(resultCache st key = Some c \<and> (ts c = None \<or> ts c = Some 0) \<longrightarrow>
      getCachedResults key now st = None)
   \<and> (resultCache st (cacheKey la lo (currentType st)) = Some c \<and> (ts c = None \<or> ts c = Some 0) \<longrightarrow>
      useLocation e la lo now st =
        (if gateClosed now st then (st, Idle)
         else (setBusy e True now (st\<lparr>inFlight := True, lastRequestAt := now\<rparr>),
               CallNearby (cacheKey la lo (currentType st)) (currentType st) la lo)))
   \<and> (cachedLocation st = Some l \<and> (timestamp l = None \<or> timestamp l = Some 0) \<longrightarrow>
      getLocation e now st =
        (if gateClosed now st then (setActive e ''find'' st, Idle)
         else if hasGeolocation e then (setActive e ''find'' st, CallGeolocation now)
         else (renderEmpty e GeoUnsupported (setActive e ''find'' st), Idle)))"
proof (intro conjI impI)
  assume "resultCache st key = Some c \<and> (ts c = None \<or> ts c = Some 0)"
  then show "getCachedResults key now st = None"
    by (simp add: getCachedResults_falsy)
next
  assume "resultCache st (cacheKey la lo (currentType st)) = Some c
    \<and> (ts c = None \<or> ts c = Some 0)"
  then have "getCachedResults (cacheKey la lo (currentType st)) now st = None"
    by (simp add: getCachedResults_falsy)
  then show "useLocation e la lo now st =
        (if gateClosed now st then (st, Idle)
         else (setBusy e True now (st\<lparr>inFlight := True, lastRequestAt := now\<rparr>),
               CallNearby (cacheKey la lo (currentType st)) (currentType st) la lo))"
    by (simp add: useLocation_def Let_def)
next
  assume "cachedLocation st = Some l \<and> (timestamp l = None \<or> timestamp l = Some 0)"
  then show "getLocation e now st =
        (if gateClosed now st then (setActive e ''find'' st, Idle)
         else if hasGeolocation e then (setActive e ''find'' st, CallGeolocation now)
         else (renderEmpty e GeoUnsupported (setActive e ''find'' st), Idle))"
    by (simp add: getLocation_falsy)
qed

theorem falsy_stamp_is_absent_witness:
  "getCachedResults ''k'' 1700000000001
     (initialState\<lparr>resultCache := [''k'' \<mapsto> \<lparr>ts = Some 0, data = Some [cafeA]\<rparr>]\<rparr>) = None
   \<and> getCachedResults ''k'' 1700000000001
     (initialState\<lparr>resultCache := [''k'' \<mapsto> \<lparr>ts = None, data = Some [cafeA]\<rparr>]\<rparr>) = None
   \<and> getLocation fullPage 1700000000001
       (initialState\<lparr>cachedLocation := Some \<lparr>lat = 40, lng = - 74, timestamp = Some 0\<rparr>\<rparr>)
     = (setActive fullPage ''find''
         (initialState\<lparr>cachedLocation := Some \<lparr>lat = 40, lng = - 74, timestamp = Some 0\<rparr>\<rparr>),
        CallGeolocation 1700000000001)
   \<and> getLocation fullPage 1700000000001
       (initialState\<lparr>cachedLocation := Some \<lparr>lat = 40, lng = - 74, timestamp = None\<rparr>\<rparr>)
     = (setActive fullPage ''find''
         (initialState\<lparr>cachedLocation := Some \<lparr>lat = 40, lng = - 74, timestamp = None\<rparr>\<rparr>),
        CallGeolocation 1700000000001)"
  using falsy_stamp_is_absent [where key = "''k''" and now = 1700000000001
      and c = "\<lparr>ts = Some 0, data = Some [cafeA]\<rparr>"
      and st = "initialState\<lparr>resultCache := [''k'' \<mapsto> \<lparr>ts = Some 0, data = Some [cafeA]\<rparr>]\<rparr>"]
    falsy_stamp_is_absent [where key = "''k''" and now = 1700000000001
      and c = "\<lparr>ts = None, data = Some [cafeA]\<rparr>"
      and st = "initialState\<lparr>resultCache := [''k'' \<mapsto> \<lparr>ts = None, data = Some [cafeA]\<rparr>]\<rparr>"]
    falsy_stamp_is_absent [where e = fullPage and now = 1700000000001
      and l = "\<lparr>lat = 40, lng = - 74, timestamp = Some 0\<rparr>"
      and st = "initialState\<lparr>cachedLocation := Some \<lparr>lat = 40, lng = - 74, timestamp = Some 0\<rparr>\<rparr>"]
    falsy_stamp_is_absent [where e = fullPage and now = 1700000000001
      and l = "\<lparr>lat = 40, lng = - 74, timestamp = None\<rparr>"
      and st = "initialState\<lparr>cachedLocation := Some \<lparr>lat = 40, lng = - 74, timestamp = None\<rparr>\<rparr>"]
  by (simp add: initialState_def fullPage_def gateClosed_def REQUEST_GAP_MS_def)


end
